theory Spec2Isabelle
  imports Main
begin

chapter \<open>The \<open>full_log\<close> display: a terminal display teed into a plain-text log file\<close>

text \<open>
  The module \<^verbatim>\<open>inspect_ai/_display/full_log/display.py\<close> has three parts: the memoised
  resolver of the log path (\<^verbatim>\<open>default_plain_log_path\<close>), two tee classes that forward every
  call to a pair of delegates (\<^verbatim>\<open>_TeeProgress\<close>, \<^verbatim>\<open>_TeeTaskDisplay\<close>), and the class
  \<^verbatim>\<open>FullLogDisplay\<close> that owns the log file and the logging handler.  Each part is embedded
  below as the source writes it; exceptions are values of a sum type, and the calls that
  reach the delegates, the file and the logging registry are recorded as a list of events.
\<close>

section \<open>Exceptions\<close>

text \<open>
  \<open>FileExistsError\<close> and \<open>PermissionError\<close> are what \<^verbatim>\<open>os.makedirs\<close> raises; \<open>Raised n\<close>
  stands for any exception raised by a delegate, by the caller's block or by a file or
  logging operation, told apart by its number.
\<close>

datatype exn = FileExistsError | PermissionError | Raised nat

section \<open>The log-path resolver\<close>

subsection \<open>Clock, random suffix and string formatting\<close>

text \<open>The fields of \<^verbatim>\<open>datetime.now(timezone.utc)\<close>.\<close>

record datetime =
  year :: nat
  month :: nat
  day :: nat
  hour :: nat
  minute :: nat
  second :: nat

definition digit_char :: "nat \<Rightarrow> char" where
  "digit_char n = ''0123456789abcdef'' ! n"

text \<open>Decimal and lower-case hexadecimal numerals, most significant digit first.\<close>

fun dec :: "nat \<Rightarrow> string" where
  "dec n = (if n < 10 then [digit_char n] else dec (n div 10) @ [digit_char (n mod 10)])"

fun hex :: "nat \<Rightarrow> string" where
  "hex n = (if n < 16 then [digit_char n] else hex (n div 16) @ [digit_char (n mod 16)])"

declare dec.simps [simp del]

declare hex.simps [simp del]

definition zpad :: "nat \<Rightarrow> string \<Rightarrow> string" where
  "zpad w s = replicate (w - length s) (CHR ''0'') @ s"

text \<open>
  \<^verbatim>\<open>strftime("%Y%m%dT%H%M%S")\<close>.  The two-digit fields are zero-padded; \<^verbatim>\<open>%Y\<close> is the year
  in decimal, which the C library does not pad (every platform prints the same four digits
  for the years 1000 to 9999).
\<close>

definition strftime :: "datetime \<Rightarrow> string" where
  "strftime d =
     dec (year d) @ zpad 2 (dec (month d)) @ zpad 2 (dec (day d)) @ ''T'' @
     zpad 2 (dec (hour d)) @ zpad 2 (dec (minute d)) @ zpad 2 (dec (second d))"

text \<open>\<^verbatim>\<open>uuid.uuid4().hex\<close>: the integer of the UUID, printed as \<^verbatim>\<open>'%032x'\<close>.\<close>

definition uuid_hex :: "nat \<Rightarrow> string" where
  "uuid_hex u = zpad 32 (hex u)"

text \<open>\<^verbatim>\<open>os.path.join\<close> for two components on a POSIX system.\<close>

definition path_join :: "string \<Rightarrow> string \<Rightarrow> string" where
  "path_join a b =
     (if b \<noteq> [] \<and> hd b = CHR ''/'' then b
      else if a = [] \<or> last a = CHR ''/'' then a @ b
      else a @ ''/'' @ b)"

subsection \<open>The working directory\<close>

text \<open>
  What \<^verbatim>\<open>os.makedirs(name, exist_ok=...)\<close> sees for a single relative component: the entry
  of that name in the working directory, and whether new entries may be created there.
\<close>

datatype entry = Dir | File

record filesystem =
  entries :: "string \<rightharpoonup> entry"
  writable :: bool

definition makedirs :: "string \<Rightarrow> bool \<Rightarrow> filesystem \<Rightarrow> exn + filesystem" where
  "makedirs name exist_ok f =
     (case entries f name of
        Some Dir \<Rightarrow> if exist_ok then Inr f else Inl FileExistsError
      | Some File \<Rightarrow> Inl FileExistsError
      | None \<Rightarrow>
          if writable f then Inr (f\<lparr>entries := (entries f)(name \<mapsto> Dir)\<rparr>)
          else Inl PermissionError)"

text \<open>An action of the environment between two calls: the entry is removed.\<close>

definition remove_entry :: "string \<Rightarrow> filesystem \<Rightarrow> filesystem" where
  "remove_entry name f = f\<lparr>entries := (entries f)(name := None)\<rparr>"

subsection \<open>\<^verbatim>\<open>default_plain_log_path\<close>\<close>

text \<open>
  The state of the process that the resolver reads and writes: the module-level variable
  \<^verbatim>\<open>_resolved_log_path\<close> and the file system.  The clock reading and the UUID are the two
  inputs the function draws from its environment.
\<close>

record process =
  resolved_log_path :: "string option"
  fs :: filesystem

definition default_plain_log_path ::
  "datetime \<Rightarrow> nat \<Rightarrow> process \<Rightarrow> (exn + string) \<times> process" where
  "default_plain_log_path now uuid4 s =
     (case resolved_log_path s of
        Some p \<Rightarrow> (Inr p, s)
      | None \<Rightarrow>
          (let timestamp = strftime now;
               hash_suffix = take 8 (uuid_hex uuid4);
               logs_dir = ''logs''
           in case makedirs logs_dir True (fs s) of
                Inl e \<Rightarrow> (Inl e, s)
              | Inr f \<Rightarrow>
                  (let p = path_join logs_dir
                             (''terminal_log_'' @ timestamp @ ''_'' @ hash_suffix @ ''.txt'')
                   in (Inr p, s\<lparr>fs := f, resolved_log_path := Some p\<rparr>))))"

text \<open>
  A run of calls in one process.  Each call has its own clock reading and UUID, and before
  it the environment may have changed the file system in any way.
\<close>

fun resolve_all ::
  "(datetime \<times> nat \<times> (filesystem \<Rightarrow> filesystem)) list \<Rightarrow> process
     \<Rightarrow> (exn + string) list \<times> process" where
  "resolve_all [] s = ([], s)"
| "resolve_all ((now, uuid4, change) # cs) s =
     (case default_plain_log_path now uuid4 (s\<lparr>fs := change (fs s)\<rparr>) of
        (r, s') \<Rightarrow> (case resolve_all cs s' of (rs, s'') \<Rightarrow> (r # rs, s'')))"

subsection \<open>The shape of a log path\<close>

definition is_digit :: "char \<Rightarrow> bool" where
  "is_digit c = (c \<in> set ''0123456789'')"

definition is_hexdigit :: "char \<Rightarrow> bool" where
  "is_hexdigit c = (c \<in> set ''0123456789abcdef'')"

text \<open>\<open>YYYYMMDDTHHMMSS\<close>: eight digits, the letter T, six digits.\<close>

definition is_timestamp :: "string \<Rightarrow> bool" where
  "is_timestamp t =
     (length t = 15 \<and> list_all is_digit (take 8 t) \<and> take 1 (drop 8 t) = ''T'' \<and>
      list_all is_digit (drop 9 t))"

text \<open>\<open>logs/terminal_log_<timestamp>_<8 hex digits>.txt\<close>, checked piece by piece.\<close>

definition is_log_path :: "string \<Rightarrow> bool" where
  "is_log_path p =
     (take 18 p = ''logs/terminal_log_'' \<and> is_timestamp (take 15 (drop 18 p)) \<and>
      take 1 (drop 33 p) = ''_'' \<and>
      length (take 8 (drop 34 p)) = 8 \<and> list_all is_hexdigit (take 8 (drop 34 p)) \<and>
      drop 42 p = ''.txt'')"

text \<open>A clock reading with a four-digit year.\<close>

definition valid_datetime :: "datetime \<Rightarrow> bool" where
  "valid_datetime d =
     (1000 \<le> year d \<and> year d \<le> 9999 \<and> 1 \<le> month d \<and> month d \<le> 12 \<and>
      1 \<le> day d \<and> day d \<le> 31 \<and> hour d < 24 \<and> minute d < 60 \<and> second d < 60)"

section \<open>Calls, events and control flow\<close>

text \<open>
  The two delegates of a tee: \<open>A\<close> is \<^verbatim>\<open>self._a\<close> (in \<^verbatim>\<open>FullLogDisplay\<close> the terminal side,
  \<^verbatim>\<open>self._full\<close>), \<open>B\<close> is \<^verbatim>\<open>self._b\<close> (the file side, \<^verbatim>\<open>self._sink\<close>).
\<close>

datatype branch = A | B

text \<open>
  Every call that leaves this module is recorded as an event: the methods of the
  \<^verbatim>\<open>Progress\<close>, \<^verbatim>\<open>TaskDisplay\<close> and \<^verbatim>\<open>Display\<close> protocols on a delegate, entering and leaving a
  delegate's context manager (leaving carries the exception handed to \<^verbatim>\<open>__exit__\<close>, if any),
  and the operations on the log file and on the logging handler (named by the path of the
  file they belong to).  \<open>'m\<close> is the type of a metric and \<open>'r\<close> the type of a task result;
  both are declared outside this module.
\<close>

datatype ('m, 'r) event =
    Update branch int
  | ProgressComplete branch
  | ProgressEnter branch
  | ProgressExit branch "exn option"
  | SampleComplete branch int int
  | UpdateMetrics branch "'m list"
  | Complete branch 'r
  | TaskEnter branch
  | TaskExit branch "exn option"
  | ScreenEnter branch
  | ScreenExit branch "exn option"
  | FileOpen string string
  | FileFlush string
  | FileClose string
  | HandlerCreate string string
  | AddHandler string
  | RemoveHandler string
  | HandlerClose string

text \<open>
  What a call does is not fixed by this module: the callee either returns (the flag is the
  truth value of what it returns, which only \<^verbatim>\<open>__exit__\<close> looks at) or raises.  A
  \<open>behaviour\<close> chooses the reply from the events so far and the call being made.
\<close>

datatype reply = Returns bool | Raises exn

type_synonym ('m, 'r) behaviour = "('m, 'r) event list \<Rightarrow> ('m, 'r) event \<Rightarrow> reply"

fun raises :: "reply \<Rightarrow> bool" where
  "raises (Raises e) = True"
| "raises (Returns b) = False"

text \<open>
  A piece of code is run after some events; it ends with an exception or a value and adds
  the events of its own calls.
\<close>

type_synonym ('m, 'r, 'a) prog = "('m, 'r) event list \<Rightarrow> (exn + 'a) \<times> ('m, 'r) event list"

text \<open>A block that is given the value bound by \<^verbatim>\<open>with ... as h\<close>.\<close>

type_synonym ('m, 'r, 'h) scope = "('h \<Rightarrow> ('m, 'r, unit) prog) \<Rightarrow> ('m, 'r, unit) prog"

definition ret :: "'a \<Rightarrow> ('m, 'r, 'a) prog" where
  "ret v tr = (Inr v, [])"

definition throw :: "exn \<Rightarrow> ('m, 'r, 'a) prog" where
  "throw e tr = (Inl e, [])"

text \<open>Two statements in a row: the second runs only if the first did not raise.\<close>

definition seq :: "('m, 'r, 'a) prog \<Rightarrow> ('m, 'r, 'b) prog \<Rightarrow> ('m, 'r, 'b) prog" where
  "seq p q tr =
     (case p tr of
        (Inl e, es) \<Rightarrow> (Inl e, es)
      | (Inr v, es) \<Rightarrow> (case q (tr @ es) of (r, es') \<Rightarrow> (r, es @ es')))"

fun exc_of :: "exn + 'a \<Rightarrow> exn option" where
  "exc_of (Inl e) = Some e"
| "exc_of (Inr v) = None"

text \<open>
  How a \<^verbatim>\<open>with\<close> block ends, from how its body ended and what \<^verbatim>\<open>__exit__\<close> did: an
  exception of \<^verbatim>\<open>__exit__\<close> replaces everything, a true return value swallows the body's
  exception, anything else leaves the body's outcome.
\<close>

fun after_exit :: "exn + unit \<Rightarrow> exn + bool \<Rightarrow> exn + unit" where
  "after_exit r (Inl e') = Inl e'"
| "after_exit (Inl e) (Inr suppress) = (if suppress then Inr () else Inl e)"
| "after_exit (Inr v) (Inr suppress) = Inr v"

text \<open>
  \<^verbatim>\<open>with cm as h: body\<close>.  If entering raises, neither the body nor \<^verbatim>\<open>__exit__\<close> runs.  The
  generator-based context managers of the source (\<^verbatim>\<open>@contextmanager\<close>,
  \<^verbatim>\<open>@asynccontextmanager\<close>) run the caller's block at their \<^verbatim>\<open>yield\<close>, so the block is
  passed in as \<open>body\<close>; the \<^verbatim>\<open>async with\<close> of \<^verbatim>\<open>task_screen\<close> awaits its steps one after the
  other and is modelled in the same way.
\<close>

definition with_ctx ::
  "('m, 'r, 'h) prog \<Rightarrow> (exn option \<Rightarrow> ('m, 'r, bool) prog) \<Rightarrow> ('m, 'r, 'h) scope" where
  "with_ctx enter exit body tr =
     (case enter tr of
        (Inl e, es1) \<Rightarrow> (Inl e, es1)
      | (Inr h, es1) \<Rightarrow>
          (case body h (tr @ es1) of
             (r, es2) \<Rightarrow>
               (case exit (exc_of r) (tr @ es1 @ es2) of
                  (x, es3) \<Rightarrow> (after_exit r x, es1 @ es2 @ es3))))"

text \<open>\<^verbatim>\<open>try: p finally: fin\<close>: \<open>fin\<close> runs however \<open>p\<close> ended; if it raises, its exception wins.\<close>

definition try_finally :: "('m, 'r, unit) prog \<Rightarrow> ('m, 'r, unit) prog \<Rightarrow> ('m, 'r, unit) prog" where
  "try_finally p fin tr =
     (case p tr of
        (r, es) \<Rightarrow>
          (case fin (tr @ es) of
             (Inl e', es') \<Rightarrow> (Inl e', es @ es')
           | (Inr v, es') \<Rightarrow> (r, es @ es')))"

text \<open>One call, recorded and answered by the behaviour.\<close>

definition call :: "('m, 'r) behaviour \<Rightarrow> ('m, 'r) event \<Rightarrow> ('m, 'r, unit) prog" where
  "call env ev tr = (case env tr ev of Returns b \<Rightarrow> Inr () | Raises e \<Rightarrow> Inl e, [ev])"

definition call_exit :: "('m, 'r) behaviour \<Rightarrow> ('m, 'r) event \<Rightarrow> ('m, 'r, bool) prog" where
  "call_exit env ev tr = (case env tr ev of Returns b \<Rightarrow> Inr b | Raises e \<Rightarrow> Inl e, [ev])"

definition call_enter :: "('m, 'r) behaviour \<Rightarrow> ('m, 'r) event \<Rightarrow> 'h \<Rightarrow> ('m, 'r, 'h) prog" where
  "call_enter env ev h tr = (case env tr ev of Returns b \<Rightarrow> Inr h | Raises e \<Rightarrow> Inl e, [ev])"

section \<open>The display protocols\<close>

text \<open>
  The abstract classes \<^verbatim>\<open>Progress\<close>, \<^verbatim>\<open>TaskDisplay\<close> and \<^verbatim>\<open>Display\<close> are records of their
  methods.  Of \<^verbatim>\<open>Display\<close> only the two methods that \<^verbatim>\<open>FullLogDisplay\<close> composes are kept;
  \<^verbatim>\<open>print\<close>, \<^verbatim>\<open>progress\<close>, \<^verbatim>\<open>run_task_app\<close>, \<^verbatim>\<open>suspend_task_app\<close> and \<^verbatim>\<open>display_counter\<close> hand
  their arguments to \<^verbatim>\<open>self._full\<close> and touch nothing else.  \<open>'ts\<close>, \<open>'tp\<close> and \<open>'sc\<close> are the
  types of a task specification, a task profile and a task screen.
\<close>

record ('m, 'r) progress =
  p_update :: "int \<Rightarrow> ('m, 'r, unit) prog"
  p_complete :: "('m, 'r, unit) prog"

record ('m, 'r) task_display =
  td_progress :: "('m, 'r, ('m, 'r) progress) scope"
  td_sample_complete :: "int \<Rightarrow> int \<Rightarrow> ('m, 'r, unit) prog"
  td_update_metrics :: "'m list \<Rightarrow> ('m, 'r, unit) prog"
  td_complete :: "'r \<Rightarrow> ('m, 'r, unit) prog"

record ('m, 'r, 'ts, 'tp, 'sc) display =
  d_task_screen :: "'ts list \<Rightarrow> bool \<Rightarrow> ('m, 'r, 'sc) scope"
  d_task :: "'tp \<Rightarrow> ('m, 'r, ('m, 'r) task_display) scope"

section \<open>The tees\<close>

text \<open>\<^verbatim>\<open>_TeeProgress(a, b)\<close>: \<^verbatim>\<open>update\<close> and \<^verbatim>\<open>complete\<close> call \<open>a\<close>, then \<open>b\<close>.\<close>

definition TeeProgress :: "('m, 'r) progress \<Rightarrow> ('m, 'r) progress \<Rightarrow> ('m, 'r) progress" where
  "TeeProgress a b =
     \<lparr>p_update = (\<lambda>n. seq (p_update a n) (p_update b n)),
      p_complete = seq (p_complete a) (p_complete b)\<rparr>"

text \<open>
  \<^verbatim>\<open>_TeeTaskDisplay(a, b)\<close>.  \<^verbatim>\<open>progress\<close> is
  \<^verbatim>\<open>with self._a.progress() as pa, self._b.progress() as pb: yield _TeeProgress(pa, pb)\<close>.
\<close>

definition TeeTaskDisplay ::
  "('m, 'r) task_display \<Rightarrow> ('m, 'r) task_display \<Rightarrow> ('m, 'r) task_display" where
  "TeeTaskDisplay a b =
     \<lparr>td_progress = (\<lambda>body. td_progress a (\<lambda>pa. td_progress b (\<lambda>pb. body (TeeProgress pa pb)))),
      td_sample_complete = (\<lambda>complete total.
         seq (td_sample_complete a complete total) (td_sample_complete b complete total)),
      td_update_metrics = (\<lambda>metrics. seq (td_update_metrics a metrics) (td_update_metrics b metrics)),
      td_complete = (\<lambda>result. seq (td_complete a result) (td_complete b result))\<rparr>"

section \<open>\<^verbatim>\<open>FullLogDisplay\<close>\<close>

text \<open>The \<^verbatim>\<open>logging.FileHandler\<close> as configured by the constructor (level 10 is \<^verbatim>\<open>DEBUG\<close>).\<close>

record log_handler =
  baseFilename :: string
  mode :: string
  level :: nat
  formatter :: string

text \<open>The attributes of an instance; \<open>log_file\<close> is the open file, named by its path.\<close>

record ('m, 'r, 'ts, 'tp, 'sc) full_log_display =
  full :: "('m, 'r, 'ts, 'tp, 'sc) display"
  log_path :: string
  log_file :: string
  sink :: "('m, 'r, 'ts, 'tp, 'sc) display"
  log_handler :: log_handler

text \<open>
  \<^verbatim>\<open>__init__\<close>.  The arguments are what the constructor reads from its surroundings: whether
  standard output is a terminal, whether the console is a notebook, the displays that
  \<^verbatim>\<open>TextualDisplay()\<close>, \<^verbatim>\<open>PlainDisplay()\<close> and \<^verbatim>\<open>PlainDisplay(console=...)\<close> on the log file
  construct, the clock and the UUID.  It opens the file for writing, creates the handler
  (which opens the same path for appending) and adds it to the root logger.
\<close>

definition FullLogDisplay_init ::
  "('m, 'r) behaviour \<Rightarrow> bool \<Rightarrow> bool \<Rightarrow> ('m, 'r, 'ts, 'tp, 'sc) display
     \<Rightarrow> ('m, 'r, 'ts, 'tp, 'sc) display \<Rightarrow> (string \<Rightarrow> ('m, 'r, 'ts, 'tp, 'sc) display)
     \<Rightarrow> datetime \<Rightarrow> nat \<Rightarrow> process \<Rightarrow> ('m, 'r) event list
     \<Rightarrow> ((exn + ('m, 'r, 'ts, 'tp, 'sc) full_log_display) \<times> ('m, 'r) event list) \<times> process" where
  "FullLogDisplay_init env isatty is_jupyter TextualDisplay PlainDisplay PlainDisplay_console
       now uuid4 s tr =
     (let full_side = (if isatty \<and> \<not> is_jupyter then TextualDisplay else PlainDisplay)
      in case default_plain_log_path now uuid4 s of
           (Inl e, s') \<Rightarrow> ((Inl e, []), s')
         | (Inr path, s') \<Rightarrow>
             (seq (call env (FileOpen path ''w''))
               (seq (call env (HandlerCreate path ''a''))
                 (seq (call env (AddHandler path))
                   (ret \<lparr>full = full_side, log_path = path, log_file = path,
                         sink = PlainDisplay_console path,
                         log_handler = \<lparr>baseFilename = path, mode = ''a'', level = 10,
                           formatter = ''%(asctime)s %(levelname)s %(name)s: %(message)s''\<rparr>\<rparr>)))
               tr, s'))"

text \<open>The \<^verbatim>\<open>finally\<close> block of \<^verbatim>\<open>task_screen\<close>.\<close>

definition finalize ::
  "('m, 'r) behaviour \<Rightarrow> ('m, 'r, 'ts, 'tp, 'sc) full_log_display \<Rightarrow> ('m, 'r, unit) prog" where
  "finalize env d =
     seq (call env (FileFlush (log_file d)))
       (seq (call env (RemoveHandler (baseFilename (log_handler d))))
         (call env (HandlerClose (baseFilename (log_handler d)))))"

definition task_screen ::
  "('m, 'r) behaviour \<Rightarrow> ('m, 'r, 'ts, 'tp, 'sc) full_log_display \<Rightarrow> 'ts list \<Rightarrow> bool
     \<Rightarrow> ('m, 'r, 'sc) scope" where
  "task_screen env d tasks parallel body =
     try_finally
       (d_task_screen (full d) tasks parallel (\<lambda>screen.
          d_task_screen (sink d) tasks parallel (\<lambda>sink_screen. body screen)))
       (finalize env d)"

definition task ::
  "('m, 'r, 'ts, 'tp, 'sc) full_log_display \<Rightarrow> 'tp \<Rightarrow> ('m, 'r, ('m, 'r) task_display) scope" where
  "task d profile body =
     d_task (full d) profile (\<lambda>full_td.
       d_task (sink d) profile (\<lambda>sink_td. body (TeeTaskDisplay full_td sink_td)))"

section \<open>Recording delegates\<close>

text \<open>
  A delegate that records each call it receives and answers as the behaviour says.  Its
  context managers record entering and leaving.
\<close>

definition mock_progress :: "('m, 'r) behaviour \<Rightarrow> branch \<Rightarrow> ('m, 'r) progress" where
  "mock_progress env br =
     \<lparr>p_update = (\<lambda>n. call env (Update br n)), p_complete = call env (ProgressComplete br)\<rparr>"

definition mock_task_display :: "('m, 'r) behaviour \<Rightarrow> branch \<Rightarrow> ('m, 'r) task_display" where
  "mock_task_display env br =
     \<lparr>td_progress = with_ctx (call_enter env (ProgressEnter br) (mock_progress env br))
                      (\<lambda>x. call_exit env (ProgressExit br x)),
      td_sample_complete = (\<lambda>complete total. call env (SampleComplete br complete total)),
      td_update_metrics = (\<lambda>metrics. call env (UpdateMetrics br metrics)),
      td_complete = (\<lambda>result. call env (Complete br result))\<rparr>"

definition mock_display :: "('m, 'r) behaviour \<Rightarrow> branch \<Rightarrow> ('m, 'r, 'ts, 'tp, branch) display" where
  "mock_display env br =
     \<lparr>d_task_screen = (\<lambda>tasks parallel.
        with_ctx (call_enter env (ScreenEnter br) br) (\<lambda>x. call_exit env (ScreenExit br x))),
      d_task = (\<lambda>profile.
        with_ctx (call_enter env (TaskEnter br) (mock_task_display env br))
          (\<lambda>x. call_exit env (TaskExit br x)))\<rparr>"

text \<open>The five forwarding methods of the two tees, and the call each makes on a delegate.\<close>

datatype ('m, 'r) tee_op =
    OpUpdate int
  | OpProgressComplete
  | OpSampleComplete int int
  | OpUpdateMetrics "'m list"
  | OpComplete 'r

fun forwarded :: "branch \<Rightarrow> ('m, 'r) tee_op \<Rightarrow> ('m, 'r) event" where
  "forwarded br (OpUpdate n) = Update br n"
| "forwarded br OpProgressComplete = ProgressComplete br"
| "forwarded br (OpSampleComplete c t) = SampleComplete br c t"
| "forwarded br (OpUpdateMetrics ms) = UpdateMetrics br ms"
| "forwarded br (OpComplete r) = Complete br r"

fun tee_call ::
  "('m, 'r) progress \<Rightarrow> ('m, 'r) task_display \<Rightarrow> ('m, 'r) tee_op \<Rightarrow> ('m, 'r, unit) prog" where
  "tee_call p td (OpUpdate n) = p_update p n"
| "tee_call p td OpProgressComplete = p_complete p"
| "tee_call p td (OpSampleComplete c t) = td_sample_complete td c t"
| "tee_call p td (OpUpdateMetrics ms) = td_update_metrics td ms"
| "tee_call p td (OpComplete r) = td_complete td r"

text \<open>One method call on a tee over two recording delegates.\<close>

definition mock_tee_call :: "('m, 'r) behaviour \<Rightarrow> ('m, 'r) tee_op \<Rightarrow> ('m, 'r, unit) prog" where
  "mock_tee_call env op =
     tee_call (TeeProgress (mock_progress env A) (mock_progress env B))
       (TeeTaskDisplay (mock_task_display env A) (mock_task_display env B)) op"

text \<open>
  The life of a tee: the method calls made on it, one after the other.  A caller may catch
  an exception and go on, so the run does not stop at a call that raised.
\<close>

fun run_ops ::
  "('m, 'r) behaviour \<Rightarrow> ('m, 'r) tee_op list \<Rightarrow> ('m, 'r) event list \<Rightarrow> ('m, 'r) event list" where
  "run_ops env [] tr = []"
| "run_ops env (op # ops) tr =
     (case mock_tee_call env op tr of (r, es) \<Rightarrow> es @ run_ops env ops (tr @ es))"

fun is_complete :: "branch \<Rightarrow> ('m, 'r) event \<Rightarrow> bool" where
  "is_complete br (Complete b r) = (b = br)"
| "is_complete br ev = False"

fun is_complete_op :: "('m, 'r) tee_op \<Rightarrow> bool" where
  "is_complete_op (OpComplete r) = True"
| "is_complete_op op = False"

text \<open>The events of the \<^verbatim>\<open>finally\<close> block, and the opening and closing of the log file.\<close>

definition is_finalization :: "('m, 'r) event \<Rightarrow> bool" where
  "is_finalization ev =
     (case ev of FileFlush p \<Rightarrow> True | RemoveHandler h \<Rightarrow> True | HandlerClose h \<Rightarrow> True
      | _ \<Rightarrow> False)"

definition is_open_or_close :: "('m, 'r) event \<Rightarrow> bool" where
  "is_open_or_close ev = (case ev of FileOpen p m \<Rightarrow> True | FileClose p \<Rightarrow> True | _ \<Rightarrow> False)"

section \<open>Concrete runs\<close>

text \<open>
  The inputs of the worked examples below: two clock readings, a process that has not
  resolved a path yet and has no \<open>logs\<close> directory, a UUID, and the path they give.
\<close>

definition now1 :: datetime where
  "now1 = \<lparr>year = 2026, month = 11, day = 4, hour = 9, minute = 5, second = 0\<rparr>"

definition now2 :: datetime where
  "now2 = \<lparr>year = 2026, month = 11, day = 4, hour = 9, minute = 5, second = 7\<rparr>"

definition fresh :: process where
  "fresh = \<lparr>resolved_log_path = None, fs = \<lparr>entries = Map.empty, writable = True\<rparr>\<rparr>"

definition uuid1 :: nat where
  "uuid1 = 0xdeadbeef0123456789abcdef01234567"

definition path0 :: string where
  "path0 = ''logs/terminal_log_20261104T090500_deadbeef.txt''"

definition resolved :: process where
  "resolved = \<lparr>resolved_log_path = Some path0,
               fs = \<lparr>entries = [''logs'' \<mapsto> Dir], writable = True\<rparr>\<rparr>"

text \<open>Delegates that never raise, and delegates where \<^verbatim>\<open>complete\<close> on \<open>A\<close> raises.\<close>

definition quiet :: "(string, string) behaviour" where
  "quiet tr ev = Returns False"

definition a_fails :: "(string, string) behaviour" where
  "a_fails tr ev =
     (case ev of
        Complete br r \<Rightarrow> (case br of A \<Rightarrow> Raises (Raised 1) | B \<Rightarrow> Returns False)
      | _ \<Rightarrow> Returns False)"

text \<open>Delegates where \<^verbatim>\<open>complete\<close> on \<open>A\<close> returns and \<^verbatim>\<open>complete\<close> on \<open>B\<close> raises.\<close>

definition b_fails :: "(string, string) behaviour" where
  "b_fails tr ev =
     (case ev of
        Complete br r \<Rightarrow> (case br of A \<Rightarrow> Returns False | B \<Rightarrow> Raises (Raised 2))
      | _ \<Rightarrow> Returns False)"

text \<open>The instance that the constructor builds in the fresh process over quiet delegates.\<close>

definition display0 :: "(string, string, string, string, branch) full_log_display" where
  "display0 =
     \<lparr>full = mock_display quiet A, log_path = path0, log_file = path0,
      sink = mock_display quiet B,
      log_handler = \<lparr>baseFilename = path0, mode = ''a'', level = 10,
        formatter = ''%(asctime)s %(levelname)s %(name)s: %(message)s''\<rparr>\<rparr>"

text \<open>Blocks run inside a scope: one that does nothing, one that raises, and two that use
  the handle they are given.\<close>

definition empty_block :: "branch \<Rightarrow> (string, string, unit) prog" where
  "empty_block screen = ret ()"

definition raising_block :: "branch \<Rightarrow> (string, string, unit) prog" where
  "raising_block screen = throw (Raised 7)"

definition update_then_raise :: "(string, string) progress \<Rightarrow> (string, string, unit) prog" where
  "update_then_raise p = seq (p_update p 3) (throw (Raised 7))"

definition complete_task :: "(string, string) task_display \<Rightarrow> (string, string, unit) prog" where
  "complete_task td = td_complete td ''success''"

definition run_one_task ::
  "(string, string, string, string, branch) full_log_display \<Rightarrow> branch
     \<Rightarrow> (string, string, unit) prog" where
  "run_one_task d screen = task d ''profile'' complete_task"

text \<open>One instance used for two task screens in a row.\<close>

definition two_task_screens :: "(string, string, unit) prog" where
  "two_task_screens =
     seq (task_screen quiet display0 [''task1''] False empty_block)
         (task_screen quiet display0 [''task2''] False empty_block)"

text \<open>
  A whole life of an instance: it is constructed in the fresh process, one task screen is
  opened for two tasks, a task is run and completed inside it, and the screen is left.
\<close>

definition lifecycle_events :: "(string, string) event list" where
  "lifecycle_events =
     (case FullLogDisplay_init quiet True False (mock_display quiet A) (mock_display quiet A)
             (\<lambda>p. mock_display quiet B) now1 uuid1 fresh [] of
        ((Inl e, es), s') \<Rightarrow> es
      | ((Inr d, es), s') \<Rightarrow>
          es @ snd (task_screen quiet d [''task1'', ''task2''] False (run_one_task d) es))"

section \<open>Properties of the log-path resolver\<close>

subsection \<open>Digits and lengths\<close>

lemma digit_char_digit: "n < 10 \<Longrightarrow> is_digit (digit_char n)"
proof -
  assume n: "n < 10"
  have "\<forall>k \<in> set [0..<10]. is_digit (digit_char k)"
    by code_simp
  moreover from n have "n \<in> set [0..<10]"
    by simp
  ultimately show ?thesis by blast
qed

lemma digit_char_hexdigit: "n < 16 \<Longrightarrow> is_hexdigit (digit_char n)"
  unfolding is_hexdigit_def digit_char_def by (rule nth_mem) simp

lemma dec_digits: "list_all is_digit (dec n)"
proof (induction n rule: dec.induct)
  case (1 n)
  show ?case
  proof (cases "n < 10")
    case True
    then show ?thesis by (subst dec.simps) (simp add: digit_char_digit)
  next
    case False
    with 1 show ?thesis by (subst dec.simps) (simp add: digit_char_digit)
  qed
qed

lemma hex_digits: "list_all is_hexdigit (hex n)"
proof (induction n rule: hex.induct)
  case (1 n)
  show ?case
  proof (cases "n < 16")
    case True
    then show ?thesis by (subst hex.simps) (simp add: digit_char_hexdigit)
  next
    case False
    with 1 show ?thesis by (subst hex.simps) (simp add: digit_char_hexdigit)
  qed
qed

lemma dec_length1: "n < 10 \<Longrightarrow> length (dec n) = 1"
  by (subst dec.simps) simp

lemma dec_length2: "10 \<le> n \<Longrightarrow> n < 100 \<Longrightarrow> length (dec n) = 2"
  by (subst dec.simps) (simp add: dec_length1)

lemma dec_length3: "100 \<le> n \<Longrightarrow> n < 1000 \<Longrightarrow> length (dec n) = 3"
  by (subst dec.simps) (simp add: dec_length2)

lemma dec_length4: "1000 \<le> n \<Longrightarrow> n < 10000 \<Longrightarrow> length (dec n) = 4"
  by (subst dec.simps) (simp add: dec_length3)

lemma zpad2_length: "n < 100 \<Longrightarrow> length (zpad 2 (dec n)) = 2"
  by (cases "n < 10") (simp_all add: zpad_def dec_length1 dec_length2)

lemma zpad_all: "P (CHR ''0'') \<Longrightarrow> list_all P s \<Longrightarrow> list_all P (zpad w s)"
  by (auto simp: zpad_def list_all_iff)

lemma zpad_digits: "list_all is_digit s \<Longrightarrow> list_all is_digit (zpad w s)"
  by (rule zpad_all) (simp_all add: is_digit_def)

lemma zpad_hexdigits: "list_all is_hexdigit s \<Longrightarrow> list_all is_hexdigit (zpad w s)"
  by (rule zpad_all) (simp_all add: is_hexdigit_def)

lemma zpad_length: "w \<le> length (zpad w s)"
  by (simp add: zpad_def)

lemma strftime_is_timestamp:
  assumes "valid_datetime d"
  shows "is_timestamp (strftime d)"
proof -
  from assms have y: "length (dec (year d)) = 4"
    by (simp add: valid_datetime_def dec_length4)
  from assms have l: "length (zpad 2 (dec (month d))) = 2" "length (zpad 2 (dec (day d))) = 2"
    "length (zpad 2 (dec (hour d))) = 2" "length (zpad 2 (dec (minute d))) = 2"
    "length (zpad 2 (dec (second d))) = 2"
    by (simp_all add: valid_datetime_def zpad2_length)
  have g: "list_all is_digit (zpad 2 (dec n))" for n
    by (simp add: zpad_digits dec_digits)
  show ?thesis
    unfolding is_timestamp_def strftime_def
    using y l by (simp add: g dec_digits)
qed

lemma suffix_hex8:
  "length (take 8 (uuid_hex u)) = 8 \<and> list_all is_hexdigit (take 8 (uuid_hex u))"
proof -
  have "32 \<le> length (uuid_hex u)" unfolding uuid_hex_def by (rule zpad_length)
  moreover have "list_all is_hexdigit (uuid_hex u)"
    unfolding uuid_hex_def by (rule zpad_hexdigits) (rule hex_digits)
  ultimately show ?thesis
    by (auto simp: list_all_iff dest: in_set_takeD)
qed

lemma log_path_form:
  assumes "is_timestamp ts" and "length sfx = 8" and "list_all is_hexdigit sfx"
  shows "is_log_path (path_join ''logs'' (''terminal_log_'' @ ts @ ''_'' @ sfx @ ''.txt''))"
proof -
  from assms(1) have l: "length ts = 15" by (simp add: is_timestamp_def)
  have p: "path_join ''logs'' (''terminal_log_'' @ ts @ ''_'' @ sfx @ ''.txt'')
           = ''logs/terminal_log_'' @ ts @ ''_'' @ sfx @ ''.txt''"
    by (simp add: path_join_def)
  show ?thesis
    unfolding p is_log_path_def using assms l by simp
qed

subsection \<open>The cache\<close>

lemma cached_call:
  "resolved_log_path s = Some p \<Longrightarrow> default_plain_log_path now uuid4 s = (Inr p, s)"
  by (simp add: default_plain_log_path_def)

lemma returned_is_cached:
  "default_plain_log_path now uuid4 s = (Inr p, s') \<Longrightarrow> resolved_log_path s' = Some p"
  by (auto simp: default_plain_log_path_def Let_def split: option.splits sum.splits)

lemma failed_call_keeps_state:
  "default_plain_log_path now uuid4 s = (Inl e, s') \<Longrightarrow> s' = s"
  by (auto simp: default_plain_log_path_def Let_def split: option.splits sum.splits)

lemma resolve_all_cached:
  "resolved_log_path s = Some p \<Longrightarrow>
     fst (resolve_all calls s) = replicate (length calls) (Inr p) \<and>
     resolved_log_path (snd (resolve_all calls s)) = Some p"
proof (induction calls arbitrary: s)
  case Nil
  then show ?case by simp
next
  case (Cons c calls)
  obtain now uuid4 change where c: "c = (now, uuid4, change)" by (cases c)
  let ?s = "s\<lparr>fs := change (fs s)\<rparr>"
  from Cons.prems have "resolved_log_path ?s = Some p" by simp
  then have call: "default_plain_log_path now uuid4 ?s = (Inr p, ?s)"
    and rest: "fst (resolve_all calls ?s) = replicate (length calls) (Inr p) \<and>
               resolved_log_path (snd (resolve_all calls ?s)) = Some p"
    by (rule cached_call, rule Cons.IH)
  then show ?case
    by (cases "resolve_all calls ?s") (simp add: c)
qed

text \<open>
  Whatever the starting state, and even if some calls raise, any two calls of one run that
  return a path return the same one.
\<close>

lemma resolve_all_agree:
  "Inr p \<in> set (fst (resolve_all calls s)) \<Longrightarrow> Inr q \<in> set (fst (resolve_all calls s))
     \<Longrightarrow> p = q"
proof (induction calls arbitrary: s)
  case Nil
  then show ?case by simp
next
  case (Cons c calls)
  obtain now uuid4 change where c: "c = (now, uuid4, change)" by (cases c)
  let ?s = "s\<lparr>fs := change (fs s)\<rparr>"
  obtain r s' where call: "default_plain_log_path now uuid4 ?s = (r, s')"
    by (cases "default_plain_log_path now uuid4 ?s")
  have res: "fst (resolve_all (c # calls) s) = r # fst (resolve_all calls s')"
    by (cases "resolve_all calls s'") (simp add: c call)
  show ?case
  proof (cases r)
    case (Inl e)
    with Cons.prems res have "Inr p \<in> set (fst (resolve_all calls s'))"
      "Inr q \<in> set (fst (resolve_all calls s'))" by auto
    then show ?thesis by (rule Cons.IH)
  next
    case (Inr x)
    with call have "resolved_log_path s' = Some x" by (simp add: returned_is_cached)
    then have "fst (resolve_all calls s') = replicate (length calls) (Inr x)"
      by (simp add: resolve_all_cached)
    with Cons.prems res Inr have "p = x" "q = x" by auto
    then show ?thesis by simp
  qed
qed

subsection \<open>The worked example\<close>

lemma strftime_now1: "strftime now1 = ''20261104T090500''"
  by (simp add: now1_def strftime_def zpad_def dec.simps digit_char_def)

lemma uuid_hex_uuid1: "take 8 (uuid_hex uuid1) = ''deadbeef''"
  by (simp add: uuid1_def uuid_hex_def zpad_def hex.simps digit_char_def)

lemma valid_now1: "valid_datetime now1"
  by (simp add: valid_datetime_def now1_def)

lemma first_call: "default_plain_log_path now1 uuid1 fresh = (Inr path0, resolved)"
  by (simp add: default_plain_log_path_def fresh_def resolved_def path0_def makedirs_def
      path_join_def strftime_now1 uuid_hex_uuid1 Let_def)

subsection \<open>Claims about the resolver\<close>

text \<open>
  Claim C7.  Once a call of \<^verbatim>\<open>default_plain_log_path\<close> has returned a path, every later call
  in the same process returns that same string, however many calls follow, whatever the
  clock and the UUID generator give by then and whatever happened to the file system in
  between; the path stays memoised and is not resolved again.
\<close>

theorem path_stability:
  assumes "default_plain_log_path now uuid4 s = (Inr p, s')"
  shows "fst (resolve_all calls s') = replicate (length calls) (Inr p) \<and>
         resolved_log_path (snd (resolve_all calls s')) = Some p"
  using assms by (intro resolve_all_cached returned_is_cached)

text \<open>
  An instance of C7: the first call in the fresh process, then two more calls with another
  clock reading and other UUIDs, the second of them after \<open>logs\<close> has been removed.
\<close>

theorem path_stability_witness:
  "default_plain_log_path now1 uuid1 fresh = (Inr path0, resolved) \<and>
   fst (resolve_all [(now2, 1, id), (now2, 2, remove_entry ''logs'')] resolved)
     = [Inr path0, Inr path0]"
  using path_stability [OF first_call, of "[(now2, 1, id), (now2, 2, remove_entry ''logs'')]"]
    first_call
  by simp

text \<open>
  Claim C8.  When the path is actually resolved (nothing is memoised yet) at a clock
  reading with a four-digit year, and \<open>logs\<close> either is a directory already or is absent
  and can be created, the call does not raise; it returns
  \<open>logs/terminal_log_<YYYYMMDDTHHMMSS>_<8 hex digits>.txt\<close>, built from the UTC clock reading
  and the first eight hexadecimal digits of the UUID; and afterwards \<open>logs\<close> is a
  directory: it has been created if it was missing.
\<close>

theorem resolution_form_and_directory:
  assumes "resolved_log_path s = None" and "valid_datetime now"
    and "entries (fs s) ''logs'' = Some Dir \<or> entries (fs s) ''logs'' = None \<and> writable (fs s)"
  shows "let p = ''logs/terminal_log_'' @ strftime now @ ''_'' @ take 8 (uuid_hex uuid4) @ ''.txt'';
             r = default_plain_log_path now uuid4 s
         in fst r = Inr p \<and> is_log_path p \<and> entries (fs (snd r)) ''logs'' = Some Dir \<and>
            resolved_log_path (snd r) = Some p"
proof -
  let ?p = "''logs/terminal_log_'' @ strftime now @ ''_'' @ take 8 (uuid_hex uuid4) @ ''.txt''"
  have j: "path_join ''logs'' (''terminal_log_'' @ strftime now @ ''_'' @ take 8 (uuid_hex uuid4) @ ''.txt'') = ?p"
    by (simp add: path_join_def)
  have "is_log_path (path_join ''logs'' (''terminal_log_'' @ strftime now @ ''_'' @ take 8 (uuid_hex uuid4) @ ''.txt''))"
    using assms(2) suffix_hex8 [of uuid4] by (intro log_path_form strftime_is_timestamp) simp_all
  then have f: "is_log_path ?p" by (simp only: j)
  from assms(3) obtain f' where m: "makedirs ''logs'' True (fs s) = Inr f'"
    and d: "entries f' ''logs'' = Some Dir"
    by (auto simp: makedirs_def)
  have "default_plain_log_path now uuid4 s = (Inr ?p, s\<lparr>fs := f', resolved_log_path := Some ?p\<rparr>)"
    using assms(1) m by (simp add: default_plain_log_path_def path_join_def Let_def)
  with f d show ?thesis by (simp add: Let_def)
qed

text \<open>
  Two instances of C8: \<open>logs\<close> is missing in the fresh process and is created; in the same
  process with \<open>logs\<close> already there, the call returns the same way.
\<close>

theorem resolution_form_and_directory_witness:
  "resolved_log_path fresh = None \<and> valid_datetime now1 \<and>
   entries (fs fresh) ''logs'' = None \<and> writable (fs fresh) \<and>
   fst (default_plain_log_path now1 uuid1 fresh) = Inr path0 \<and> is_log_path path0 \<and>
   entries (fs (snd (default_plain_log_path now1 uuid1 fresh))) ''logs'' = Some Dir \<and>
   entries (fs (resolved\<lparr>resolved_log_path := None\<rparr>)) ''logs'' = Some Dir \<and>
   fst (default_plain_log_path now1 uuid1 (resolved\<lparr>resolved_log_path := None\<rparr>)) = Inr path0"
  using resolution_form_and_directory [of fresh now1 uuid1]
    resolution_form_and_directory [of "resolved\<lparr>resolved_log_path := None\<rparr>" now1 uuid1]
    valid_now1
  by (simp add: fresh_def resolved_def path0_def Let_def strftime_now1 uuid_hex_uuid1)

text \<open>
  Claim C10.  After a call has returned the path, a later call changes nothing: it returns
  the memoised path and leaves the whole state of the process, the file system included,
  exactly as it found it.  So if \<open>logs\<close> was removed in between, the later call still
  returns the path and \<open>logs\<close> is still missing afterwards: \<^verbatim>\<open>makedirs\<close> is not called again.
\<close>

theorem no_side_effects_once_cached:
  assumes "default_plain_log_path now uuid4 s = (Inr p, s')"
  shows "default_plain_log_path now' uuid4' (s'\<lparr>fs := change (fs s')\<rparr>)
           = (Inr p, s'\<lparr>fs := change (fs s')\<rparr>) \<and>
         entries (fs (snd (default_plain_log_path now' uuid4'
                             (s'\<lparr>fs := remove_entry ''logs'' (fs s')\<rparr>)))) ''logs'' = None"
proof -
  from assms have c: "resolved_log_path s' = Some p" by (rule returned_is_cached)
  have "default_plain_log_path now' uuid4' (s'\<lparr>fs := f\<rparr>) = (Inr p, s'\<lparr>fs := f\<rparr>)" for f
    using c by (simp add: cached_call)
  then show ?thesis by (simp add: remove_entry_def)
qed

text \<open>An instance of C10: the directory is removed after the first call.\<close>

theorem no_side_effects_once_cached_witness:
  "default_plain_log_path now1 uuid1 fresh = (Inr path0, resolved) \<and>
   default_plain_log_path now2 2 (resolved\<lparr>fs := remove_entry ''logs'' (fs resolved)\<rparr>)
     = (Inr path0, resolved\<lparr>fs := remove_entry ''logs'' (fs resolved)\<rparr>) \<and>
   entries (fs (snd (default_plain_log_path now2 2
                       (resolved\<lparr>fs := remove_entry ''logs'' (fs resolved)\<rparr>)))) ''logs'' = None"
  using no_side_effects_once_cached [OF first_call, of now2 2 "remove_entry ''logs''"] first_call
  by (simp add: remove_entry_def)

section \<open>Properties of the tees\<close>

subsection \<open>What one forwarded call does\<close>

lemma mock_tee_call_result:
  "mock_tee_call env op tr =
     (case env tr (forwarded A op) of
        Raises e \<Rightarrow> (Inl e, [forwarded A op])
      | Returns x \<Rightarrow>
          (case env (tr @ [forwarded A op]) (forwarded B op) of
             Raises e \<Rightarrow> (Inl e, [forwarded A op, forwarded B op])
           | Returns y \<Rightarrow> (Inr (), [forwarded A op, forwarded B op])))"
  by (cases op)
    (simp_all add: mock_tee_call_def TeeProgress_def TeeTaskDisplay_def mock_progress_def
      mock_task_display_def seq_def call_def split: reply.splits)

lemma forwarded_branch: "forwarded A op \<noteq> forwarded B op"
  by (cases op) simp_all

text \<open>
  The same for delegates of any kind: when \<open>a\<close>'s method raises, the tee's method is \<open>a\<close>'s
  method, with the same exception and the same events, whatever \<open>b\<close> is.
\<close>

lemma tee_call_first_branch_raises:
  assumes "tee_call pa ta op tr = (Inl e, es)"
  shows "tee_call (TeeProgress pa pb) (TeeTaskDisplay ta tb) op tr = (Inl e, es)"
  using assms by (cases op) (simp_all add: TeeProgress_def TeeTaskDisplay_def seq_def)

lemma complete_events_A:
  "filter (is_complete A) (snd (mock_tee_call env op tr)) =
     (if is_complete_op op then [forwarded A op] else [])"
  by (cases op) (simp_all add: mock_tee_call_result split: reply.splits)

lemma complete_events_B:
  "length (filter (is_complete B) (snd (mock_tee_call env op tr))) \<le>
     (if is_complete_op op then 1 else 0)"
  by (cases op) (simp_all add: mock_tee_call_result split: reply.splits)

subsection \<open>Claims about forwarding\<close>

text \<open>
  Claim C2.  For each of the five forwarding methods (\<^verbatim>\<open>update\<close> and \<^verbatim>\<open>complete\<close> of a progress
  tee; \<^verbatim>\<open>sample_complete\<close>, \<^verbatim>\<open>update_metrics\<close> and \<^verbatim>\<open>complete\<close> of a task display tee): if the
  call forwarded to \<open>A\<close> raises, the tee's method ends with that same exception, and the
  only call made is the one on \<open>A\<close>: the corresponding call on \<open>B\<close> is not made.
\<close>

theorem no_partial_fan_out:
  assumes "env tr (forwarded A op) = Raises e"
  shows "mock_tee_call env op tr = (Inl e, [forwarded A op]) \<and>
         forwarded B op \<notin> set (snd (mock_tee_call env op tr))"
  using assms forwarded_branch [of op] by (simp add: mock_tee_call_result)

text \<open>An instance of C2: \<^verbatim>\<open>complete\<close> where \<open>A\<close> raises.\<close>

theorem no_partial_fan_out_witness:
  "a_fails [] (forwarded A (OpComplete ''success'')) = Raises (Raised 1) \<and>
   mock_tee_call a_fails (OpComplete ''success'') [] = (Inl (Raised 1), [Complete A ''success''])"
  using no_partial_fan_out [of a_fails "[]" "OpComplete ''success''" "Raised 1"]
  by (simp add: a_fails_def)

text \<open>
  Claim C3, as stated, fails: \<^verbatim>\<open>complete(result)\<close> on a task display tee whose delegate \<open>A\<close>
  raises has been received by \<open>A\<close> and not by \<open>B\<close>, so exactly one of the two delegates got
  the notification.  And when \<open>A\<close>'s call returns and \<open>B\<close>'s raises, both were called but
  only \<open>A\<close>'s notification went through, and the tee's method ends with \<open>B\<close>'s exception.
\<close>

theorem complete_partial_delivery:
  "Complete A ''success'' \<in> set (snd (mock_tee_call a_fails (OpComplete ''success'') [])) \<and>
   Complete B ''success'' \<notin> set (snd (mock_tee_call a_fails (OpComplete ''success'') [])) \<and>
   mock_tee_call b_fails (OpComplete ''success'') [] =
     (Inl (Raised 2), [Complete A ''success'', Complete B ''success''])"
  by (simp add: mock_tee_call_result a_fails_def b_fails_def)

text \<open>
  Claim C3, amended.  \<^verbatim>\<open>complete(result)\<close> on a task display tee always calls \<open>A\<close>, and calls
  \<open>B\<close> after it exactly when the call on \<open>A\<close> returned.  So both delegates are notified
  whenever \<open>A\<close>'s call does not raise, \<open>B\<close> is never notified alone, and when \<open>A\<close>'s call
  raises \<open>A\<close> is the only delegate that was called.
\<close>

theorem complete_fan_out:
  "snd (mock_tee_call env (OpComplete r) tr) =
     (if raises (env tr (Complete A r)) then [Complete A r] else [Complete A r, Complete B r])"
  by (simp add: mock_tee_call_result split: reply.splits)

text \<open>Two instances of the amended C3: no delegate raises, and \<open>A\<close> raises.\<close>

theorem complete_fan_out_witness:
  "snd (mock_tee_call quiet (OpComplete ''success'') []) =
     [Complete A ''success'', Complete B ''success''] \<and>
   snd (mock_tee_call a_fails (OpComplete ''success'') []) = [Complete A ''success'']"
  using complete_fan_out [of quiet "''success''" "[]"] complete_fan_out [of a_fails "''success''" "[]"]
  by (simp add: quiet_def a_fails_def)

text \<open>
  Claim C4.  For each of the five forwarding methods of the two tees over recording
  delegates, the calls made by one method call are the call on \<open>A\<close> first and then the same
  call on \<open>B\<close>: the trace is exactly \<open>[A's call, B's call]\<close>.  (If the call on \<open>A\<close> raises, the
  trace is the call on \<open>A\<close> alone; in no case is \<open>B\<close> called before \<open>A\<close>.)
\<close>

theorem tee_order:
  "snd (mock_tee_call env op tr) =
     forwarded A op # (if raises (env tr (forwarded A op)) then [] else [forwarded B op])"
  by (simp add: mock_tee_call_result split: reply.splits)

text \<open>Two instances of C4: \<^verbatim>\<open>update(3)\<close> over quiet delegates, and \<^verbatim>\<open>complete\<close> where \<open>A\<close> raises.\<close>

theorem tee_order_witness:
  "snd (mock_tee_call quiet (OpUpdate 3) []) = [Update A 3, Update B 3] \<and>
   snd (mock_tee_call a_fails (OpComplete ''success'') []) = [Complete A ''success'']"
  using tee_order [of quiet "OpUpdate 3" "[]"] tee_order [of a_fails "OpComplete ''success''" "[]"]
  by (simp add: quiet_def a_fails_def)

text \<open>
  Claim C9, as stated, fails: the tee has no guard, so when \<^verbatim>\<open>complete\<close> is called twice on
  it, delegate \<open>A\<close> receives two terminal notifications.
\<close>

theorem complete_forwarded_twice:
  "length (filter (is_complete A)
     (run_ops quiet [OpComplete ''success'', OpComplete ''success''] [])) = 2"
  by (simp add: mock_tee_call_result quiet_def)

text \<open>
  Claim C9, amended.  Each call of \<^verbatim>\<open>complete(result)\<close> on a task display tee is forwarded
  once to \<open>A\<close> and at most once to \<open>B\<close>, and no other method of a tee forwards a
  \<^verbatim>\<open>complete(result)\<close>.  Over the life of a tee, \<open>A\<close> receives exactly as many terminal
  notifications as \<^verbatim>\<open>complete\<close> was called on the tee, and \<open>B\<close> at most as many; in particular
  at most one each when the caller completes the task at most once.
\<close>

theorem complete_forwarded_per_call:
  "length (filter (is_complete A) (run_ops env ops tr)) = length (filter is_complete_op ops) \<and>
   length (filter (is_complete B) (run_ops env ops tr)) \<le> length (filter is_complete_op ops)"
proof (induction ops arbitrary: tr)
  case Nil
  show ?case by simp
next
  case (Cons op ops)
  obtain r es where c: "mock_tee_call env op tr = (r, es)"
    by (cases "mock_tee_call env op tr")
  from c have a: "filter (is_complete A) es = (if is_complete_op op then [forwarded A op] else [])"
    using complete_events_A [of env op tr] by simp
  from c have b: "length (filter (is_complete B) es) \<le> (if is_complete_op op then 1 else 0)"
    using complete_events_B [of env op tr] by simp
  from Cons.IH [of "tr @ es"] a b show ?case
    by (cases "is_complete_op op") (simp_all add: c)
qed

text \<open>An instance of the amended C9: a life with one \<^verbatim>\<open>complete\<close>.\<close>

theorem complete_forwarded_per_call_witness:
  "length (filter (is_complete A) (run_ops quiet [OpUpdate 1, OpComplete ''success''] [])) = 1 \<and>
   length (filter (is_complete B) (run_ops quiet [OpUpdate 1, OpComplete ''success''] [])) \<le> 1"
  using complete_forwarded_per_call [of quiet "[OpUpdate 1, OpComplete ''success'']" "[]"]
  by simp

section \<open>Properties of the scopes\<close>

subsection \<open>Events of the control-flow constructs\<close>

lemma call_events [simp]: "snd (call env ev tr) = [ev]"
  by (simp add: call_def)

lemma call_exit_events [simp]: "snd (call_exit env ev tr) = [ev]"
  by (simp add: call_exit_def)

lemma call_enter_events [simp]: "snd (call_enter env ev h tr) = [ev]"
  by (simp add: call_enter_def)

lemma call_ok: "\<not> raises (env tr ev) \<Longrightarrow> fst (call env ev tr) = Inr ()"
  by (cases "env tr ev") (simp_all add: call_def)

lemma call_enter_ok: "\<not> raises (env tr ev) \<Longrightarrow> fst (call_enter env ev h tr) = Inr h"
  by (cases "env tr ev") (simp_all add: call_enter_def)

lemma call_enter_raises: "env tr ev = Raises e \<Longrightarrow> fst (call_enter env ev h tr) = Inl e"
  by (simp add: call_enter_def)

lemma seq_events:
  "snd (seq p q tr) =
     (case fst (p tr) of Inl e \<Rightarrow> snd (p tr) | Inr v \<Rightarrow> snd (p tr) @ snd (q (tr @ snd (p tr))))"
  by (simp add: seq_def split: prod.splits sum.splits)

lemma try_finally_events:
  "snd (try_finally p fin tr) = snd (p tr) @ snd (fin (tr @ snd (p tr)))"
  by (simp add: try_finally_def split: prod.splits sum.splits)

lemma with_ctx_events:
  "snd (with_ctx enter exit body tr) =
     (case fst (enter tr) of
        Inl e \<Rightarrow> snd (enter tr)
      | Inr h \<Rightarrow>
          snd (enter tr) @ snd (body h (tr @ snd (enter tr))) @
          snd (exit (exc_of (fst (body h (tr @ snd (enter tr)))))
                 (tr @ snd (enter tr) @ snd (body h (tr @ snd (enter tr))))))"
  by (simp add: with_ctx_def split: prod.splits sum.splits)

lemma with_ctx_result:
  "fst (with_ctx enter exit body tr) =
     (case fst (enter tr) of
        Inl e \<Rightarrow> Inl e
      | Inr h \<Rightarrow>
          after_exit (fst (body h (tr @ snd (enter tr))))
            (fst (exit (exc_of (fst (body h (tr @ snd (enter tr)))))
                 (tr @ snd (enter tr) @ snd (body h (tr @ snd (enter tr)))))))"
  by (simp add: with_ctx_def split: prod.splits sum.splits)

text \<open>
  Events of a kind that neither the block nor entering and leaving produce do not occur
  in a scope of a recording delegate.
\<close>

lemma mock_ctx_filter:
  assumes "\<not> P ev_in" and "\<And>x. \<not> P (ev_out x)"
    and "\<And>tr'. filter P (snd (body h tr')) = []"
  shows "filter P (snd (with_ctx (call_enter env ev_in h) (\<lambda>x. call_exit env (ev_out x)) body tr)) = []"
proof (cases "env tr ev_in")
  case (Returns b)
  then have "fst (call_enter env ev_in h tr) = Inr h"
    by (simp add: call_enter_def)
  then show ?thesis
    by (simp add: with_ctx_events assms)
next
  case (Raises e)
  then have "fst (call_enter env ev_in h tr) = Inl e"
    by (simp add: call_enter_def)
  then show ?thesis
    by (simp add: with_ctx_events assms)
qed

lemma mock_screens_filter:
  assumes "\<And>tr'. filter P (snd (body A tr')) = []"
    and "\<And>br. \<not> P (ScreenEnter br)" and "\<And>br x. \<not> P (ScreenExit br x)"
  shows "filter P (snd (d_task_screen (mock_display env A) tasks parallel (\<lambda>screen.
           d_task_screen (mock_display env B) tasks parallel (\<lambda>sink_screen. body screen)) tr)) = []"
  unfolding mock_display_def
  by (simp add: assms mock_ctx_filter)

lemma mock_tasks_filter:
  assumes "\<And>tr'. filter P (snd (body (TeeTaskDisplay (mock_task_display env A)
                                           (mock_task_display env B)) tr')) = []"
    and "\<And>br. \<not> P (TaskEnter br)" and "\<And>br x. \<not> P (TaskExit br x)"
  shows "filter P (snd (d_task (mock_display env A) profile (\<lambda>full_td.
           d_task (mock_display env B) profile (\<lambda>sink_td. body (TeeTaskDisplay full_td sink_td))) tr)) = []"
  unfolding mock_display_def
  by (simp add: assms mock_ctx_filter)

subsection \<open>The progress scope of a task display tee\<close>

text \<open>
  Claim C5.  A use of \<^verbatim>\<open>progress()\<close> of a task display tee over recording delegates, in
  which both delegates' progress scopes open, opens one scope on \<open>A\<close> and then one on \<open>B\<close>,
  runs the block with the progress tee of the two handles, and then closes \<open>B\<close>'s scope and
  after it \<open>A\<close>'s, once each.  This holds whether the block returns or raises (\<open>B\<close>'s
  \<^verbatim>\<open>__exit__\<close> is handed the block's exception, \<open>A\<close>'s what is left of it after \<open>B\<close>'s), and
  whatever the two \<^verbatim>\<open>__exit__\<close> calls do.
\<close>

theorem progress_scope_symmetry:
  assumes "\<not> raises (env tr (ProgressEnter A))"
    and "\<not> raises (env (tr @ [ProgressEnter A]) (ProgressEnter B))"
  shows "let r0 = body (TeeProgress (mock_progress env A) (mock_progress env B))
                    (tr @ [ProgressEnter A, ProgressEnter B]);
             xb = call_exit env (ProgressExit B (exc_of (fst r0)))
                    (tr @ [ProgressEnter A, ProgressEnter B] @ snd r0);
             r1 = after_exit (fst r0) (fst xb)
         in snd (td_progress (TeeTaskDisplay (mock_task_display env A) (mock_task_display env B))
                   body tr) =
              [ProgressEnter A, ProgressEnter B] @ snd r0 @
              [ProgressExit B (exc_of (fst r0)), ProgressExit A (exc_of r1)]"
  using assms
  by (simp add: TeeTaskDisplay_def mock_task_display_def with_ctx_events with_ctx_result
      call_enter_ok Let_def)

text \<open>An instance of C5: the block updates the progress tee by 3 and then raises.\<close>

theorem progress_scope_symmetry_witness:
  "\<not> raises (quiet [] (ProgressEnter A)) \<and>
   \<not> raises (quiet ([] @ [ProgressEnter A]) (ProgressEnter B)) \<and>
   snd (td_progress (TeeTaskDisplay (mock_task_display quiet A) (mock_task_display quiet B))
          update_then_raise []) =
     [ProgressEnter A, ProgressEnter B, Update A 3, Update B 3,
      ProgressExit B (Some (Raised 7)), ProgressExit A (Some (Raised 7))]"
  using progress_scope_symmetry [of quiet "[]" update_then_raise]
  by (simp add: quiet_def Let_def update_then_raise_def TeeProgress_def mock_progress_def seq_def
      call_def throw_def call_exit_def)

text \<open>
  When a delegate's scope does not open: if \<open>A\<close>'s fails to open, nothing else is called;
  if \<open>B\<close>'s fails to open, \<open>A\<close>'s scope is closed with \<open>B\<close>'s exception and the block does not
  run.
\<close>

lemma progress_scope_first_open_fails:
  assumes "env tr (ProgressEnter A) = Raises e"
  shows "td_progress (TeeTaskDisplay (mock_task_display env A) (mock_task_display env B)) body tr
           = (Inl e, [ProgressEnter A])"
  using assms
  by (simp add: TeeTaskDisplay_def mock_task_display_def with_ctx_def call_enter_def)

lemma progress_scope_second_open_fails:
  assumes "\<not> raises (env tr (ProgressEnter A))"
    and "env (tr @ [ProgressEnter A]) (ProgressEnter B) = Raises e"
  shows "snd (td_progress (TeeTaskDisplay (mock_task_display env A) (mock_task_display env B)) body tr)
           = [ProgressEnter A, ProgressEnter B, ProgressExit A (Some e)]"
  using assms
  by (simp add: TeeTaskDisplay_def mock_task_display_def with_ctx_events with_ctx_result
      call_enter_ok call_enter_raises)

section \<open>Properties of \<^verbatim>\<open>FullLogDisplay\<close>\<close>

subsection \<open>The \<^verbatim>\<open>finally\<close> block\<close>

lemma finalize_events:
  assumes "\<not> raises (env tr (FileFlush (log_file d)))"
    and "\<not> raises (env (tr @ [FileFlush (log_file d)]) (RemoveHandler (baseFilename (log_handler d))))"
  shows "snd (finalize env d tr) =
           [FileFlush (log_file d), RemoveHandler (baseFilename (log_handler d)),
            HandlerClose (baseFilename (log_handler d))]"
  using assms by (simp add: finalize_def seq_events call_ok)

text \<open>
  The flush is attempted in any case; the handler is removed only if the flush returned,
  and closed only if the removal returned.
\<close>

lemma finalize_flush_raises:
  assumes "env tr (FileFlush (log_file d)) = Raises e"
  shows "finalize env d tr = (Inl e, [FileFlush (log_file d)])"
  using assms by (simp add: finalize_def seq_def call_def)

subsection \<open>The constructor\<close>

lemma init_result:
  assumes "FullLogDisplay_init env isatty is_jupyter T P Pc now uuid4 s tr = ((Inr d, es), s')"
  shows "default_plain_log_path now uuid4 s = (Inr (log_path d), s')"
    and "log_file d = log_path d" and "baseFilename (log_handler d) = log_path d"
    and "es = [FileOpen (log_path d) ''w'', HandlerCreate (log_path d) ''a'', AddHandler (log_path d)]"
    and "full d = (if isatty \<and> \<not> is_jupyter then T else P)" and "sink d = Pc (log_path d)"
  using assms
  by (auto simp: FullLogDisplay_init_def seq_def call_def ret_def Let_def
      split: prod.splits sum.splits reply.splits)

lemma init0:
  "FullLogDisplay_init quiet True False (mock_display quiet A) (mock_display quiet A)
     (\<lambda>p. mock_display quiet B) now1 uuid1 fresh [] =
   ((Inr display0, [FileOpen path0 ''w'', HandlerCreate path0 ''a'', AddHandler path0]), resolved)"
  by (simp add: FullLogDisplay_init_def first_call seq_def call_def ret_def quiet_def display0_def)

subsection \<open>Claims about the task screen and the log file\<close>

text \<open>
  Claim C1, as stated, fails in its last part: the finalization is tied to leaving a task
  screen, not to the instance.  One instance used for two task screens in a row flushes
  the file, removes the handler and closes the handler twice.
\<close>

theorem finalization_twice:
  "filter is_finalization (snd (two_task_screens [])) =
   [FileFlush path0, RemoveHandler path0, HandlerClose path0,
    FileFlush path0, RemoveHandler path0, HandlerClose path0]"
  by (simp add: two_task_screens_def empty_block_def seq_def task_screen_def try_finally_def
      finalize_def display0_def mock_display_def with_ctx_def call_def call_enter_def
      call_exit_def ret_def quiet_def is_finalization_def)

text \<open>
  Claim C1, amended.  Every use of the task-screen scope of a \<^verbatim>\<open>FullLogDisplay\<close> over
  recording delegates in which the flush and the removal of the handler do not raise,
  performs exactly one flush of the log file, one removal of the logging handler and one
  close of the handler, in this order, as the last three things it does: after both nested
  task screens have been left, whether the block returned or raised and whatever entering
  and leaving the nested screens did.  (The block itself is assumed not to flush the file
  or touch the handler.)  This happens once per use of the scope.
\<close>

theorem task_screen_finalization:
  assumes "full d = mock_display env A" and "sink d = mock_display env B"
    and "\<And>tr'. filter is_finalization (snd (body A tr')) = []"
    and "\<And>tr'. \<not> raises (env tr' (FileFlush (log_file d)))"
    and "\<And>tr'. \<not> raises (env tr' (RemoveHandler (baseFilename (log_handler d))))"
  shows "filter is_finalization (snd (task_screen env d tasks parallel body tr)) =
           [FileFlush (log_file d), RemoveHandler (baseFilename (log_handler d)),
            HandlerClose (baseFilename (log_handler d))] \<and>
         drop (length (snd (task_screen env d tasks parallel body tr)) - 3)
              (snd (task_screen env d tasks parallel body tr)) =
           [FileFlush (log_file d), RemoveHandler (baseFilename (log_handler d)),
            HandlerClose (baseFilename (log_handler d))]"
proof -
  define nested where "nested = d_task_screen (full d) tasks parallel (\<lambda>screen.
           d_task_screen (sink d) tasks parallel (\<lambda>sink_screen. body screen))"
  let ?fin = "[FileFlush (log_file d), RemoveHandler (baseFilename (log_handler d)),
            HandlerClose (baseFilename (log_handler d))]"
  have n: "filter is_finalization (snd (nested tr)) = []"
    unfolding nested_def assms(1,2)
    by (rule mock_screens_filter) (rule assms(3), simp_all add: is_finalization_def)
  have f: "snd (finalize env d (tr @ snd (nested tr))) = ?fin"
    by (rule finalize_events) (rule assms(4), rule assms(5))
  have "snd (task_screen env d tasks parallel body tr)
          = snd (nested tr) @ snd (finalize env d (tr @ snd (nested tr)))"
    by (simp add: task_screen_def try_finally_events nested_def)
  then have e: "snd (task_screen env d tasks parallel body tr) = snd (nested tr) @ ?fin"
    by (simp only: f)
  show ?thesis
    by (simp add: e n is_finalization_def)
qed

text \<open>An instance of the amended C1: the block raises.\<close>

theorem task_screen_finalization_witness:
  "full display0 = mock_display quiet A \<and> sink display0 = mock_display quiet B \<and>
   filter is_finalization (snd (task_screen quiet display0 [''task1''] False raising_block [])) =
     [FileFlush path0, RemoveHandler path0, HandlerClose path0] \<and>
   snd (task_screen quiet display0 [''task1''] False raising_block []) =
     [ScreenEnter A, ScreenEnter B, ScreenExit B (Some (Raised 7)), ScreenExit A (Some (Raised 7)),
      FileFlush path0, RemoveHandler path0, HandlerClose path0]"
proof -
  have d: "full display0 = mock_display quiet A" "sink display0 = mock_display quiet B"
    by (simp_all add: display0_def)
  have b: "filter is_finalization (snd (raising_block A tr')) = []" for tr'
    by (simp add: raising_block_def throw_def)
  have q: "\<not> raises (quiet tr' ev)" for tr' ev
    by (simp add: quiet_def)
  have e: "snd (task_screen quiet display0 [''task1''] False raising_block []) =
     [ScreenEnter A, ScreenEnter B, ScreenExit B (Some (Raised 7)), ScreenExit A (Some (Raised 7)),
      FileFlush path0, RemoveHandler path0, HandlerClose path0]"
    by (simp add: task_screen_def try_finally_def finalize_def display0_def mock_display_def
        with_ctx_def call_def call_enter_def call_exit_def raising_block_def throw_def quiet_def
        seq_def)
  from task_screen_finalization [where d = display0 and env = quiet and body = raising_block
      and tasks = "[''task1'']" and parallel = False and tr = "[]", OF d b q q] d e
  show ?thesis by (simp add: display0_def)
qed

text \<open>
  Claim C6, as stated, fails in one part: the file opened by the constructor is never
  closed by this class.  Over a whole life of an instance (construction, a task screen
  with a completed task, leaving the screen) the log file is opened once and not closed;
  what the \<^verbatim>\<open>finally\<close> block closes is the logging handler.
\<close>

theorem log_file_never_closed:
  "filter is_open_or_close lifecycle_events = [FileOpen path0 ''w''] \<and>
   FileClose path0 \<notin> set lifecycle_events"
  unfolding lifecycle_events_def init0
  by (simp add: task_screen_def try_finally_def finalize_def run_one_task_def task_def
      complete_task_def display0_def mock_display_def mock_task_display_def TeeTaskDisplay_def
      with_ctx_def call_def call_enter_def call_exit_def quiet_def seq_def is_open_or_close_def)

text \<open>
  Claim C6, amended.  An instance of \<^verbatim>\<open>FullLogDisplay\<close> has one log path, the path that
  \<^verbatim>\<open>default_plain_log_path\<close> resolved and memoised, and one backing file: the constructor
  opens that path once for writing (and creates and adds the logging handler on the same
  path), keeps the open file as \<open>log_file\<close>, and neither \<^verbatim>\<open>task_screen\<close> nor \<^verbatim>\<open>task\<close> opens
  or closes a file: the handle is flushed when a task screen is left and is not closed by
  this class.
\<close>

theorem single_log_file:
  assumes "FullLogDisplay_init env isatty is_jupyter (mock_display env A) (mock_display env A)
             (\<lambda>p. mock_display env B) now uuid4 s tr0 = ((Inr d, es), s')"
    and "\<And>tr'. filter is_open_or_close (snd (body_s A tr')) = []"
    and "\<And>tr'. filter is_open_or_close
           (snd (body_t (TeeTaskDisplay (mock_task_display env A) (mock_task_display env B)) tr')) = []"
  shows "default_plain_log_path now uuid4 s = (Inr (log_path d), s') \<and>
         resolved_log_path s' = Some (log_path d) \<and>
         log_file d = log_path d \<and>
         es = [FileOpen (log_path d) ''w'', HandlerCreate (log_path d) ''a'',
               AddHandler (log_path d)] \<and>
         filter is_open_or_close (snd (task_screen env d tasks parallel body_s tr)) = [] \<and>
         filter is_open_or_close (snd (task d profile body_t tr)) = []"
proof -
  note i = init_result [OF assms(1)]
  from i(5,6) have m: "full d = mock_display env A" "sink d = mock_display env B"
    by simp_all
  from i(1) have c: "resolved_log_path s' = Some (log_path d)"
    by (rule returned_is_cached)
  have n: "filter is_open_or_close (snd (d_task_screen (full d) tasks parallel (\<lambda>screen.
           d_task_screen (sink d) tasks parallel (\<lambda>sink_screen. body_s screen)) tr')) = []" for tr'
    unfolding m by (rule mock_screens_filter) (rule assms(2), simp_all add: is_open_or_close_def)
  have f: "filter is_open_or_close (snd (finalize env d tr')) = []" for tr'
    by (simp add: finalize_def seq_events is_open_or_close_def split: sum.splits)
  have s: "filter is_open_or_close (snd (task_screen env d tasks parallel body_s tr)) = []"
    by (simp add: task_screen_def try_finally_events n f)
  have t: "filter is_open_or_close (snd (task d profile body_t tr)) = []"
    unfolding task_def m by (rule mock_tasks_filter) (rule assms(3), simp_all add: is_open_or_close_def)
  from i(1,2,4) c s t show ?thesis by simp
qed

text \<open>An instance of the amended C6: the instance built in the fresh process.\<close>

theorem single_log_file_witness:
  "FullLogDisplay_init quiet True False (mock_display quiet A) (mock_display quiet A)
     (\<lambda>p. mock_display quiet B) now1 uuid1 fresh [] =
   ((Inr display0, [FileOpen path0 ''w'', HandlerCreate path0 ''a'', AddHandler path0]), resolved) \<and>
   default_plain_log_path now1 uuid1 fresh = (Inr (log_path display0), resolved) \<and>
   log_file display0 = log_path display0 \<and>
   filter is_open_or_close (snd (task_screen quiet display0 [''task1''] False raising_block [])) = [] \<and>
   filter is_open_or_close (snd (task display0 ''profile'' complete_task [])) = []"
proof -
  have b: "filter is_open_or_close (snd (raising_block A tr')) = []" for tr'
    by (simp add: raising_block_def throw_def)
  have t: "filter is_open_or_close (snd (complete_task
             (TeeTaskDisplay (mock_task_display quiet A) (mock_task_display quiet B)) tr')) = []"
    for tr'
    by (simp add: complete_task_def TeeTaskDisplay_def mock_task_display_def seq_def call_def
        quiet_def is_open_or_close_def)
  show ?thesis
    using single_log_file [where body_s = raising_block and body_t = complete_task
        and tasks = "[''task1'']" and parallel = False and profile = "''profile''" and tr = "[]",
        OF init0 b t] init0
    by simp
qed

end
